theory Spec2Isabelle
  imports Complex_Main
begin

section \<open>Python values, exceptions and string operations\<close>

text \<open>
  The crawler (\<^verbatim>\<open>spider.py\<close>) is Python 3 (it uses f-strings and assignment
  expressions). A Python \<^verbatim>\<open>str\<close> is modelled as a \<^typ>\<open>string\<close>; every string constant
  of the source is ASCII. Exceptions are values of \<open>exn\<close>; every constructor below stands
  for a subclass of Python's \<^verbatim>\<open>Exception\<close>.
\<close>

datatype exn =
    ConnectTimeout
  | ConnectionError
  | TypeError
  | AttributeError
  | KeyError
  | ValueError
  | OtherException string

text \<open>
  The values that \<^verbatim>\<open>get_content_length\<close> and the membership test on a response handle:
  \<^verbatim>\<open>None\<close>, an \<^verbatim>\<open>int\<close>, a \<^verbatim>\<open>str\<close> and a \<^verbatim>\<open>bytes\<close> object.
  A \<^verbatim>\<open>str\<close> never equals a \<^verbatim>\<open>bytes\<close> object in Python 3, as the constructors say.
\<close>

datatype pyval = PyNone | PyInt int | PyStr string | PyBytes string

definition startswith :: "string \<Rightarrow> string \<Rightarrow> bool" where
  "startswith s p = (take (length p) s = p)"

definition endswith :: "string \<Rightarrow> string \<Rightarrow> bool" where
  "endswith s p = (length p \<le> length s \<and> drop (length s - length p) s = p)"

text \<open>\<^verbatim>\<open>sub in s\<close> on strings.\<close>

fun str_in :: "string \<Rightarrow> string \<Rightarrow> bool" where
  "str_in sub [] = (sub = [])"
| "str_in sub (c # cs) = (startswith (c # cs) sub \<or> str_in sub cs)"

text \<open>\<^verbatim>\<open>s.strip(chars)\<close> for a one-character argument, and \<^verbatim>\<open>s.strip()\<close>.\<close>

definition strip_char :: "char \<Rightarrow> string \<Rightarrow> string" where
  "strip_char ch s = rev (dropWhile (\<lambda>c. c = ch) (rev (dropWhile (\<lambda>c. c = ch) s)))"

definition isspace :: "char \<Rightarrow> bool" where
  "isspace c = ((of_char c :: nat) \<in> {9, 10, 11, 12, 13, 28, 29, 30, 31, 32, 133, 160})"

definition strip :: "string \<Rightarrow> string" where
  "strip s = rev (dropWhile isspace (rev (dropWhile isspace s)))"

text \<open>\<^verbatim>\<open>s.split(sep)[0]\<close> and \<^verbatim>\<open>s.split(sep)[-1]\<close> for a one-character separator.\<close>

definition split_first :: "char \<Rightarrow> string \<Rightarrow> string" where
  "split_first sep s = takeWhile (\<lambda>c. c \<noteq> sep) s"

definition split_last :: "char \<Rightarrow> string \<Rightarrow> string" where
  "split_last sep s = rev (takeWhile (\<lambda>c. c \<noteq> sep) (rev s))"

text \<open>
  \<^verbatim>\<open>s.replace(old, new)\<close>: occurrences are found from the left and do not overlap; an
  empty \<^verbatim>\<open>old\<close> matches before every character and at the end.
\<close>

function replace :: "string \<Rightarrow> string \<Rightarrow> string \<Rightarrow> string" where
  "replace [] old new = (if old = [] then new else [])"
| "replace (c # cs) old new =
     (if old = [] then new @ c # replace cs old new
      else if startswith (c # cs) old
        then new @ replace (drop (length old) (c # cs)) old new
      else c # replace cs old new)"
  by pat_completeness auto
termination
  by (relation "measure (\<lambda>(s, old, new). length s)") auto

text \<open>\<^verbatim>\<open>str(n)\<close> for an integer, as the f-strings of the source render it.\<close>

function str_nat :: "nat \<Rightarrow> string" where
  "str_nat n = (if n < 10 then [''0123456789'' ! n]
                else str_nat (n div 10) @ [''0123456789'' ! (n mod 10)])"
  by pat_completeness auto
termination
  by (relation "measure (\<lambda>n. n)") auto

declare str_nat.simps [simp del]

definition str_int :: "int \<Rightarrow> string" where
  "str_int i = (if i < 0 then CHR ''-'' # str_nat (nat (- i)) else str_nat (nat i))"

text \<open>
  \<^verbatim>\<open>int(s)\<close> on a string: surrounding whitespace is dropped, one sign is allowed, and
  decimal digits may be separated by single underscores. Anything else raises
  \<^verbatim>\<open>ValueError\<close>.
\<close>

definition digit_of :: "char \<Rightarrow> nat option" where
  "digit_of c = (let k = (of_char c :: nat) in if 48 \<le> k \<and> k \<le> 57 then Some (k - 48) else None)"

fun int_digits :: "nat \<Rightarrow> string \<Rightarrow> nat option" where
  "int_digits acc [] = Some acc"
| "int_digits acc [c] = map_option (\<lambda>v. 10 * acc + v) (digit_of c)"
| "int_digits acc (c # d # cs) =
     (case digit_of c of
        None \<Rightarrow> None
      | Some v \<Rightarrow>
          if d = CHR ''_'' then (if cs = [] then None else int_digits (10 * acc + v) cs)
          else int_digits (10 * acc + v) (d # cs))"

definition py_int :: "string \<Rightarrow> exn + int" where
  "py_int s =
     (case strip s of
        [] \<Rightarrow> Inl ValueError
      | c # cs \<Rightarrow>
          if c = CHR ''-'' \<or> c = CHR ''+'' then
            (if cs = [] then Inl ValueError
             else case int_digits 0 cs of
                    None \<Rightarrow> Inl ValueError
                  | Some n \<Rightarrow> Inr (if c = CHR ''-'' then - int n else int n))
          else (case int_digits 0 (c # cs) of
                  None \<Rightarrow> Inl ValueError
                | Some n \<Rightarrow> Inr (int n)))"

section \<open>Parsed markup\<close>

text \<open>
  A document parsed by BeautifulSoup is a list of top-level nodes. A node is a string or
  a tag with a name, its attribute dictionary (as the list of its items) and its
  contents. A string has one of the string classes of the library: the parser gives the
  class \<^verbatim>\<open>Script\<close>, \<^verbatim>\<open>Stylesheet\<close>, \<^verbatim>\<open>TemplateString\<close>, \<^verbatim>\<open>RubyTextString\<close> or
  \<^verbatim>\<open>RubyParenthesisString\<close> to the strings inside the tag of that kind, \<^verbatim>\<open>Comment\<close> to a
  comment, and \<^verbatim>\<open>NavigableString\<close> to ordinary text.
\<close>

datatype string_type =
    NavigableString
  | CData
  | Comment
  | Declaration
  | Doctype
  | ProcessingInstruction
  | Stylesheet
  | Script
  | TemplateString
  | RubyTextString
  | RubyParenthesisString

datatype node = Str string_type string | Tag string "(string \<times> string) list" "node list"

abbreviation Text :: "string \<Rightarrow> node" where
  "Text s \<equiv> Str NavigableString s"

fun tag_name :: "node \<Rightarrow> string" where
  "tag_name (Str k s) = []"
| "tag_name (Tag n a cs) = n"

fun attrs :: "node \<Rightarrow> (string \<times> string) list" where
  "attrs (Str k s) = []"
| "attrs (Tag n a cs) = a"

text \<open>
  \<^verbatim>\<open>element.text\<close> and \<^verbatim>\<open>parser.text\<close> (BeautifulSoup 4.11 and later): the strings below
  the element whose class is exactly one of its interesting classes, concatenated in
  document order. The interesting classes are \<^verbatim>\<open>NavigableString\<close> and \<^verbatim>\<open>CData\<close>, except
  for a \<^verbatim>\<open>script\<close>, \<^verbatim>\<open>style\<close>, \<^verbatim>\<open>template\<close>, \<^verbatim>\<open>rt\<close> or \<^verbatim>\<open>rp\<close> tag, whose
  own text is made of the strings of its own class only. So the text of a page leaves
  out scripts, style sheets, templates, ruby annotations and comments.
\<close>

definition interesting_string_types :: "string \<Rightarrow> string_type list" where
  "interesting_string_types n =
     (if n = ''rt'' then [RubyTextString]
      else if n = ''rp'' then [RubyParenthesisString]
      else if n = ''style'' then [Stylesheet]
      else if n = ''script'' then [Script]
      else if n = ''template'' then [TemplateString]
      else [NavigableString, CData])"

fun all_strings :: "string_type list \<Rightarrow> node \<Rightarrow> string" where
  "all_strings types (Str k s) = (if k \<in> set types then s else [])"
| "all_strings types (Tag n a cs) = concat (map (all_strings types) cs)"

fun get_text :: "node \<Rightarrow> string" where
  "get_text (Str k s) = (if k \<in> set [NavigableString, CData] then s else [])"
| "get_text (Tag n a cs) = concat (map (all_strings (interesting_string_types n)) cs)"

definition parser_text :: "node list \<Rightarrow> string" where
  "parser_text doc = concat (map (all_strings [NavigableString, CData]) doc)"

text \<open>\<^verbatim>\<open>findAll()\<close>: every tag, in document order.\<close>

fun findAll_node :: "node \<Rightarrow> node list" where
  "findAll_node (Str k s) = []"
| "findAll_node (Tag n a cs) = Tag n a cs # concat (map findAll_node cs)"

definition findAll :: "node list \<Rightarrow> node list" where
  "findAll doc = concat (map findAll_node doc)"

text \<open>
  \<^verbatim>\<open>select_one("#ident")\<close>: the first tag in document order whose \<^verbatim>\<open>id\<close> attribute is
  \<open>ident\<close>.
\<close>

definition select_one_id :: "string \<Rightarrow> node list \<Rightarrow> node option" where
  "select_one_id ident doc = List.find (\<lambda>t. map_of (attrs t) ''id'' = Some ident) (findAll doc)"

section \<open>Configuration and the outside world\<close>

record response =
  status_code :: int
  headers :: "string \<Rightarrow> string option"
  content :: string

text \<open>
  The environment holds the configuration read at start-up and what the libraries do:
  \<^item> \<open>requests_get url timeout verify\<close> and \<open>requests_head url\<close> answer with a response or
    raise;
  \<^item> \<open>html_parser\<close> is \<^verbatim>\<open>BeautifulSoup(content, "html.parser")\<close>;
  \<^item> \<open>select\<close> is the CSS selector engine on compound selectors (single-id selectors
    are written out above as \<open>select_one_id\<close>);
  \<^item> \<open>py_float\<close> is \<^verbatim>\<open>float(s)\<close>, which raises \<^verbatim>\<open>ValueError\<close> on other text.
\<close>

record env =
  CTFTIME_URL :: string
  TIMEOUT :: int
  requests_get :: "string \<Rightarrow> int option \<Rightarrow> bool \<Rightarrow> exn + response"
  requests_head :: "string \<Rightarrow> exn + response"
  html_parser :: "string \<Rightarrow> node list"
  select :: "string \<Rightarrow> node list \<Rightarrow> node list"
  py_float :: "string \<Rightarrow> exn + real"

definition select_one :: "env \<Rightarrow> string \<Rightarrow> node list \<Rightarrow> node option" where
  "select_one e sel doc = (case select e sel doc of [] \<Rightarrow> None | x # xs \<Rightarrow> Some x)"

section \<open>The size probe\<close>

text \<open>
  \<^verbatim>\<open>for chunk in response\<close> iterates \<^verbatim>\<open>response.iter_content(128)\<close>: the body, as
  \<^verbatim>\<open>bytes\<close> slices of 128 bytes. A response has no \<^verbatim>\<open>__contains__\<close>, so
  \<^verbatim>\<open>x in response\<close> compares \<open>x\<close> with each of these slices.
\<close>

function iter_slices :: "string \<Rightarrow> nat \<Rightarrow> string list" where
  "iter_slices s n =
     (if s = [] then []
      else if n = 0 then [s]
      else take n s # iter_slices (drop n s) n)"
  by pat_completeness auto
termination
  by (relation "measure (\<lambda>(s, n). length s)") auto

declare iter_slices.simps [simp del]

definition response_iter :: "response \<Rightarrow> pyval list" where
  "response_iter r = map PyBytes (iter_slices (content r) 128)"

definition in_response :: "pyval \<Rightarrow> response \<Rightarrow> bool" where
  "in_response x r = (x \<in> set (response_iter r))"

text \<open>
  \<^verbatim>\<open>get_content_length\<close>: the bare \<^verbatim>\<open>except\<close> turns every exception of the block into
  the result 0, the \<^verbatim>\<open>KeyError\<close> of a missing header included.
\<close>

definition get_content_length :: "env \<Rightarrow> string \<Rightarrow> pyval" where
  "get_content_length e url =
     (case requests_head e url of
        Inl x \<Rightarrow> PyInt 0
      | Inr response \<Rightarrow>
          if \<not> in_response (PyStr ''Content-Length'') response then PyNone
          else (case headers response ''Content-Length'' of
                  None \<Rightarrow> PyInt 0
                | Some v \<Rightarrow> PyStr v))"

section \<open>Resolving the blog page\<close>

definition try_bind :: "exn + 'a \<Rightarrow> ('a \<Rightarrow> exn + 'b) \<Rightarrow> exn + 'b" where
  "try_bind m f = (case m of Inl x \<Rightarrow> Inl x | Inr v \<Rightarrow> f v)"

fun sequence_exn :: "(exn + 'a) list \<Rightarrow> exn + 'a list" where
  "sequence_exn [] = Inr []"
| "sequence_exn (m # ms) =
     (case m of
        Inl x \<Rightarrow> Inl x
      | Inr v \<Rightarrow> (case sequence_exn ms of Inl x \<Rightarrow> Inl x | Inr vs \<Rightarrow> Inr (v # vs)))"

text \<open>
  The guard \<^verbatim>\<open>content_length == 0 or content_length > 2 ** 21\<close>. In Python 3,
  \<^verbatim>\<open>==\<close> between values of different types is false, and \<^verbatim>\<open>>\<close> between \<^verbatim>\<open>None\<close>
  (or a \<^verbatim>\<open>str\<close>) and an \<^verbatim>\<open>int\<close> raises \<^verbatim>\<open>TypeError\<close>.
\<close>

definition py_eq_int :: "pyval \<Rightarrow> int \<Rightarrow> bool" where
  "py_eq_int v n = (v = PyInt n)"

definition py_gt_int :: "pyval \<Rightarrow> int \<Rightarrow> exn + bool" where
  "py_gt_int v n = (case v of PyInt k \<Rightarrow> Inr (k > n) | _ \<Rightarrow> Inl TypeError)"

definition size_guard :: "pyval \<Rightarrow> exn + bool" where
  "size_guard content_length =
     (if py_eq_int content_length 0 then Inr True else py_gt_int content_length (2 ^ 21))"

text \<open>
  Lines 106 to 130: the direct link to the content of a gist or of a repository. A tag is
  truthy whatever its contents, so \<^verbatim>\<open>if filename\<close> asks whether \<^verbatim>\<open>select_one\<close> found
  one. When no name is found, \<^verbatim>\<open>filename\<close> is still \<^verbatim>\<open>None\<close> and the f-string renders
  it as \<^verbatim>\<open>None\<close>.
\<close>

definition filename :: "env \<Rightarrow> node list \<Rightarrow> string option" where
  "filename e parser =
     (case select_one e ''#readme .Link--primary'' parser of
        Some el \<Rightarrow> Some (get_text el)
      | None \<Rightarrow>
          map_option get_text
            (List.find (\<lambda>element. endswith (get_text element) ''.md'')
               (select e ''.js-navigation-open.Link--primary'' parser)))"

definition fstring :: "string option \<Rightarrow> string" where
  "fstring v = (case v of None \<Rightarrow> ''None'' | Some s \<Rightarrow> s)"

definition github_url :: "env \<Rightarrow> string \<Rightarrow> exn + string" where
  "github_url e url =
     (if str_in ''gist.github.com'' url then Inr (strip_char CHR ''/'' url @ ''/raw'')
      else if str_in ''github.com'' url then
        try_bind
          (if \<not> endswith url ''.md'' then
             try_bind (requests_get e url None True)
               (\<lambda>response.
                  Inr (strip_char CHR ''/'' (replace url ''tree'' ''blob'') @ ''/'' @
                       fstring (filename e (html_parser e (content response)))))
           else Inr url)
          (\<lambda>url. Inr (replace (replace url ''github.com'' ''raw.githubusercontent.com'')
                        ''/blob'' ''/''))
      else Inr url)"

text \<open>
  Lines 138 to 142: every tag of the listing whose \<^verbatim>\<open>src\<close> starts with \<^verbatim>\<open>data\<close> is
  destroyed with what is below it, and the text of what remains is stripped. The listing
  is taken before the loop; \<^verbatim>\<open>decompose\<close> empties the attribute dictionary of the tags
  below the destroyed one, so that \<^verbatim>\<open>element.attrs\<close> is \<^verbatim>\<open>None\<close> when the loop reaches
  them and the membership test raises \<^verbatim>\<open>TypeError\<close>.
\<close>

definition has_data_src :: "node \<Rightarrow> bool" where
  "has_data_src element =
     (case map_of (attrs element) ''src'' of None \<Rightarrow> False | Some v \<Rightarrow> startswith v ''data'')"

fun decompose_data :: "node \<Rightarrow> exn + node list" where
  "decompose_data (Str k s) = Inr [Str k s]"
| "decompose_data (Tag n a cs) =
     (if has_data_src (Tag n a cs) then
        (if concat (map findAll_node cs) = [] then Inr [] else Inl TypeError)
      else (case sequence_exn (map decompose_data cs) of
              Inl x \<Rightarrow> Inl x
            | Inr ds \<Rightarrow> Inr [Tag n a (concat ds)]))"

definition blog_page_text :: "node list \<Rightarrow> exn + string" where
  "blog_page_text parser =
     (case sequence_exn (map decompose_data parser) of
        Inl x \<Rightarrow> Inl x
      | Inr ds \<Rightarrow> Inr (strip (parser_text (concat ds))))"

text \<open>
  \<^verbatim>\<open>scrape_blog_writeup\<close>. Only \<^verbatim>\<open>ConnectTimeout\<close> and \<^verbatim>\<open>ConnectionError\<close> of the body
  fetch are handled here; every other exception leaves the function.
\<close>

definition scrape_blog_writeup :: "env \<Rightarrow> string \<Rightarrow> exn + string" where
  "scrape_blog_writeup e url0 =
     (let url = split_first CHR ''#'' url0;
          content_length = get_content_length e url
      in try_bind (size_guard content_length)
           (\<lambda>skip.
              if skip then Inr []
              else try_bind (github_url e url)
                (\<lambda>url.
                   case requests_get e url (Some (TIMEOUT e)) False of
                     Inl x \<Rightarrow> if x = ConnectTimeout \<or> x = ConnectionError then Inr [] else Inl x
                   | Inr response \<Rightarrow>
                       if status_code response = 200
                       then blog_page_text (html_parser e (content response))
                       else Inr [])))"

section \<open>Resolving one write-up\<close>

datatype rating_value = RatingStr string | RatingFloat real

record writeup =
  writeup_id :: int
  ctf :: string
  name :: string
  tags :: string
  author :: string
  team :: string
  rating :: rating_value
  ctftime :: string
  url :: string
  ctftime_content :: string
  blog_content :: string

definition ctftime_url :: "env \<Rightarrow> int \<Rightarrow> string" where
  "ctftime_url e i = CTFTIME_URL e @ ''/writeup/'' @ str_int i"

text \<open>\<^verbatim>\<open>select_one(...).text.strip()\<close>: \<^verbatim>\<open>None.text\<close> raises \<^verbatim>\<open>AttributeError\<close>.\<close>

definition text_strip :: "node option \<Rightarrow> exn + string" where
  "text_strip el = (case el of None \<Rightarrow> Inl AttributeError | Some t \<Rightarrow> Inr (strip (get_text t)))"

text \<open>
  Line 195, \<^verbatim>\<open>team, author = team or author, team and author or ""\<close>, where \<open>team\<close> is
  \<^verbatim>\<open>None\<close> (no team element) or the stripped text of the element. \<^verbatim>\<open>None\<close> and the
  empty string are both falsy. The result is the pair (team, author).
\<close>

definition team_author :: "string option \<Rightarrow> string \<Rightarrow> string \<times> string" where
  "team_author team' author' =
     (case team' of
        None \<Rightarrow> (author', [])
      | Some t \<Rightarrow> if t = [] then (author', []) else (t, author'))"

fun join :: "string \<Rightarrow> string list \<Rightarrow> string" where
  "join sep [] = []"
| "join sep [x] = x"
| "join sep (x # y # ys) = x @ sep @ join sep (y # ys)"

text \<open>
  Lines 216 to 221: every anchor is replaced by its children and every \<^verbatim>\<open>br\<close> by a
  line feed (an ordinary string), over the whole page.
\<close>

fun replaceWithChildren :: "node \<Rightarrow> node list" where
  "replaceWithChildren (Str k s) = [Str k s]"
| "replaceWithChildren (Tag n a cs) =
     (if n = ''a'' then concat (map replaceWithChildren cs)
      else [Tag n a (concat (map replaceWithChildren cs))])"

fun replace_br :: "node \<Rightarrow> node" where
  "replace_br (Str k s) = Str k s"
| "replace_br (Tag n a cs) = (if n = ''br'' then Text [CHR 0x0A] else Tag n a (map replace_br cs))"

definition ctftime_writeup_content :: "node list \<Rightarrow> string" where
  "ctftime_writeup_content parser =
     (case select_one_id ''id_description''
             (map replace_br (concat (map replaceWithChildren parser))) of
        Some element \<Rightarrow> strip (get_text element)
      | None \<Rightarrow> [])"

text \<open>The fields read off the detail page, lines 189 to 228, named as the source names them.\<close>

record page_info =
  ctf_name :: string
  challenge_name :: string
  page_author :: string
  page_team :: string
  page_tags :: string
  page_rating :: real
  blog_url :: string
  description :: string

definition parse_page :: "env \<Rightarrow> node list \<Rightarrow> exn + page_info" where
  "parse_page e parser =
     try_bind (text_strip (select_one e ''.breadcrumb li:nth-child(3) a'' parser)) (\<lambda>ctf_name.
     try_bind (text_strip (select_one e ''.divider+ li a'' parser)) (\<lambda>challenge_name.
     try_bind (text_strip (select_one e ''h2+ a'' parser)) (\<lambda>author.
     let team' = map_option (\<lambda>element. strip (get_text element))
                   (select_one e ''.page-header a+ a'' parser);
         tags' = join '' '' (map get_text (select e ''.label-info'' parser))
     in
     try_bind (text_strip (select_one_id ''user_rating'' parser)) (\<lambda>rating.
     try_bind (if rating \<noteq> [] then py_float e rating else Inr 0) (\<lambda>rating.
     let element = select e ''.well a'' parser;
         blog_url' = (if element \<noteq> [] then
                        (case map_of (attrs (last element)) ''href'' of
                           Some h \<Rightarrow> h
                         | None \<Rightarrow> [])
                      else [])
     in Inr \<lparr> ctf_name = ctf_name, challenge_name = challenge_name,
              page_author = snd (team_author team' author),
              page_team = fst (team_author team' author),
              page_tags = tags', page_rating = rating, blog_url = blog_url',
              description = ctftime_writeup_content parser \<rparr>)))))"

text \<open>
  \<^verbatim>\<open>scrape_writeup_info\<close>: the record and the status code. The \<^verbatim>\<open>except Exception\<close> of
  lines 231 to 236 turns every exception of \<^verbatim>\<open>scrape_blog_writeup\<close> into an empty blog
  content and an empty blog URL.
\<close>

definition scrape_writeup_info :: "env \<Rightarrow> int \<Rightarrow> exn + (writeup option \<times> int)" where
  "scrape_writeup_info e i =
     try_bind (requests_get e (ctftime_url e i) None True) (\<lambda>response.
       if status_code response = 404 then
         Inr (Some \<lparr> writeup_id = i, ctf = [], name = [], tags = [], author = [], team = [],
                     rating = RatingStr [], ctftime = ctftime_url e i, url = [],
                     ctftime_content = [], blog_content = [] \<rparr>, 404)
       else if status_code response \<noteq> 200 then Inr (None, status_code response)
       else
         try_bind (parse_page e (html_parser e (content response))) (\<lambda>p.
           let resolved =
                 (if blog_url p \<noteq> [] then
                    (case scrape_blog_writeup e (blog_url p) of
                       Inl x \<Rightarrow> ([], [])
                     | Inr c \<Rightarrow> (c, blog_url p))
                  else ([], blog_url p))
           in Inr (Some \<lparr> writeup_id = i, ctf = ctf_name p, name = challenge_name p,
                         tags = page_tags p, author = page_author p, team = page_team p,
                         rating = RatingFloat (page_rating p), ctftime = ctftime_url e i,
                         url = snd resolved, ctftime_content = description p,
                         blog_content = fst resolved \<rparr>, 200)))"

section \<open>The crawl\<close>

text \<open>
  The collection is the list of the records inserted so far. The text index of lines 255
  to 269 is kept by the storage engine and is left out, as are the log lines and the
  progress bar, which only print; the loop runs the progress bar with a positive length.
\<close>

definition get_latest_writeup_id :: "env \<Rightarrow> exn + int option" where
  "get_latest_writeup_id e =
     try_bind (requests_get e (CTFTIME_URL e) None True) (\<lambda>response.
       if status_code response \<noteq> 200 then Inr None
       else
         (case select_one e ''.page-header+ .table-striped tr:nth-child(2) td:nth-child(4) a''
                 (html_parser e (content response)) of
            None \<Rightarrow> Inl TypeError
          | Some el \<Rightarrow>
              (case map_of (attrs el) ''href'' of
                 None \<Rightarrow> Inl KeyError
               | Some href \<Rightarrow> try_bind (py_int (split_last CHR ''/'' href)) (\<lambda>n. Inr (Some n)))))"

definition crawled :: "writeup list \<Rightarrow> int list" where
  "crawled collection = map writeup_id collection"

definition missing :: "int \<Rightarrow> int list \<Rightarrow> int list" where
  "missing latest_writeup_id ids = filter (\<lambda>i. i \<notin> set ids) [1..latest_writeup_id]"

text \<open>
  The loop of lines 293 to 308. An exception of \<^verbatim>\<open>scrape_writeup_info\<close> is handled
  nowhere: it ends the run, with the records inserted before it kept. The result is the
  collection and the exception that ended the run, if any.
\<close>

fun crawl :: "env \<Rightarrow> int list \<Rightarrow> writeup list \<Rightarrow> writeup list \<times> exn option" where
  "crawl e [] collection = (collection, None)"
| "crawl e (i # rest) collection =
     (case scrape_writeup_info e i of
        Inl x \<Rightarrow> (collection, Some x)
      | Inr (w, code) \<Rightarrow>
          if code = 200 \<or> code = 404 then
            (case w of
               None \<Rightarrow> (collection, Some TypeError)
             | Some r \<Rightarrow> crawl e rest (collection @ [r]))
          else crawl e rest collection)"

text \<open>
  The main block from line 271: \<^verbatim>\<open>latest_writeup_id + 1\<close> raises \<^verbatim>\<open>TypeError\<close> when
  \<^verbatim>\<open>get_latest_writeup_id\<close> returned \<^verbatim>\<open>None\<close>.
\<close>

definition main :: "env \<Rightarrow> writeup list \<Rightarrow> writeup list \<times> exn option" where
  "main e collection =
     (case get_latest_writeup_id e of
        Inl x \<Rightarrow> (collection, Some x)
      | Inr None \<Rightarrow> (collection, Some TypeError)
      | Inr (Some latest_writeup_id) \<Rightarrow>
          crawl e (missing latest_writeup_id (crawled collection)) collection)"

section \<open>The description read in one pass\<close>

text \<open>
  What lines 216 to 228 extract can be read off the page as parsed, without rewriting it.
  The tags that are still tags after the rewriting are those that are no anchor, no
  \<^verbatim>\<open>br\<close> and not inside a \<^verbatim>\<open>br\<close>; the description element is the first of them, in
  document order, whose \<^verbatim>\<open>id\<close> is \<^verbatim>\<open>id_description\<close>. Its text takes every interesting
  string below it, the label of an anchor and the text inside a tag with a \<^verbatim>\<open>src\<close>
  included, and a line feed for every \<^verbatim>\<open>br\<close>.
\<close>

fun tag_contents :: "node \<Rightarrow> node list" where
  "tag_contents (Str k s) = []"
| "tag_contents (Tag n a cs) = cs"

fun surviving :: "node \<Rightarrow> node list" where
  "surviving (Str k s) = []"
| "surviving (Tag n a cs) =
     (if n = ''br'' then []
      else (if n = ''a'' then [] else [Tag n a cs]) @ concat (map surviving cs))"

definition description_element :: "node list \<Rightarrow> node option" where
  "description_element doc =
     List.find (\<lambda>t. map_of (attrs t) ''id'' = Some ''id_description'')
       (concat (map surviving doc))"

fun visible :: "string_type list \<Rightarrow> node \<Rightarrow> string" where
  "visible types (Str k s) = (if k \<in> set types then s else [])"
| "visible types (Tag n a cs) =
     (if n = ''br'' then (if NavigableString \<in> set types then [CHR 0x0A] else [])
      else concat (map (visible types) cs))"

definition description_text :: "node \<Rightarrow> string" where
  "description_text el =
     strip (concat (map (visible (interesting_string_types (tag_name el))) (tag_contents el)))"

text \<open>The description element as the rewriting of lines 216 to 221 leaves it.\<close>

fun rewritten :: "node \<Rightarrow> node" where
  "rewritten (Str k s) = Str k s"
| "rewritten (Tag n a cs) = Tag n a (map replace_br (concat (map replaceWithChildren cs)))"

text \<open>
  The extraction as section 4.3 of the specification words it, for comparison: every
  element whose \<^verbatim>\<open>src\<close> begins with the inline-data scheme is removed, every anchor is
  replaced by its content, every line break by a line feed, and the remaining visible
  text is trimmed.
\<close>

definition inline_data_src :: "node \<Rightarrow> bool" where
  "inline_data_src element =
     (case map_of (attrs element) ''src'' of None \<Rightarrow> False | Some v \<Rightarrow> startswith v ''data:'')"

fun spec_visible :: "node \<Rightarrow> string" where
  "spec_visible (Str k s) = (if k \<in> set [NavigableString, CData] then s else [])"
| "spec_visible (Tag n a cs) =
     (if inline_data_src (Tag n a cs) then []
      else if n = ''br'' then [CHR 0x0A]
      else concat (map spec_visible cs))"

definition spec_extractText :: "node list \<Rightarrow> string" where
  "spec_extractText markup = strip (concat (map spec_visible markup))"

section \<open>Example sites\<close>

text \<open>
  A small origin site for the concrete instances below: write-up 1 exists, write-up 2 was
  deleted, write-up 3 answers 503. The detail page links to a blog post whose header
  probe advertises 5000000 bytes.
\<close>

definition site_select :: "string \<Rightarrow> node list \<Rightarrow> node list" where
  "site_select sel doc =
     (if sel = ''.breadcrumb li:nth-child(3) a''
        then [Tag ''a'' [(''href'', ''/event/7'')] [Text ''Some CTF'']]
      else if sel = ''.divider+ li a'' then [Tag ''a'' [] [Text ''pwn me'']]
      else if sel = ''h2+ a'' then [Tag ''a'' [] [Text ''bob'']]
      else if sel = ''.label-info''
        then [Tag ''span'' [] [Text ''pwn''], Tag ''span'' [] [Text ''heap'']]
      else if sel = ''.well a''
        then [Tag ''a'' [(''href'', ''https://blog.example/post#top'')] [Text ''writeup'']]
      else if sel = ''#readme .Link--primary'' then [Tag ''a'' [] [Text ''README.md'']]
      else if sel = ''.page-header+ .table-striped tr:nth-child(2) td:nth-child(4) a''
        then [Tag ''a'' [(''href'', ''/writeup/3'')] [Text ''latest'']]
      else [])"

definition anchor_page :: "node list" where
  "anchor_page =
     [Tag ''div'' [(''id'', ''id_description'')]
        [Tag ''p'' [] [Text ''See '', Tag ''a'' [(''href'', ''x'')] [Text ''this link''],
                       Text '' for details'']]]"

definition site_page :: "node list" where
  "site_page = Tag ''div'' [(''id'', ''user_rating'')] [Text '' 4.5 ''] # anchor_page"

definition site_response :: response where
  "site_response = \<lparr> status_code = 200, headers = Map.empty, content = ''page'' \<rparr>"

definition site_probe :: response where
  "site_probe = \<lparr> status_code = 200, headers = [''Content-Length'' \<mapsto> ''5000000''],
                   content = [] \<rparr>"

definition site_get :: "string \<Rightarrow> int option \<Rightarrow> bool \<Rightarrow> exn + response" where
  "site_get u t v =
     (if u = ''https://ctftime.org/writeup/2''
        then Inr \<lparr> status_code = 404, headers = Map.empty, content = [] \<rparr>
      else if u = ''https://ctftime.org/writeup/3''
        then Inr \<lparr> status_code = 503, headers = Map.empty, content = [] \<rparr>
      else Inr site_response)"

definition site :: env where
  "site = \<lparr> CTFTIME_URL = ''https://ctftime.org'', TIMEOUT = 10,
            requests_get = site_get,
            requests_head = (\<lambda>u. Inr site_probe),
            html_parser = (\<lambda>s. site_page),
            select = site_select,
            py_float = (\<lambda>s. if s = ''4.5'' then Inr (9 / 2) else Inl ValueError) \<rparr>"

definition site_info :: page_info where
  "site_info = \<lparr> ctf_name = ''Some CTF'', challenge_name = ''pwn me'', page_author = [],
                  page_team = ''bob'', page_tags = ''pwn heap'', page_rating = 9 / 2,
                  blog_url = ''https://blog.example/post#top'',
                  description = ''See this link for details'' \<rparr>"

text \<open>The same site when the header probe advertises no size.\<close>

definition quiet_site :: env where
  "quiet_site = site \<lparr> requests_head :=
     (\<lambda>u. Inr \<lparr> status_code = 200, headers = Map.empty, content = [] \<rparr>) \<rparr>"

text \<open>The same site when every page answers 503.\<close>

definition down_site :: env where
  "down_site = site \<lparr> requests_get :=
     (\<lambda>u t v. Inr \<lparr> status_code = 503, headers = Map.empty, content = [] \<rparr>) \<rparr>"

text \<open>The same site when the detail page carries the team element \<open>t\<close>.\<close>

definition team_site :: "node \<Rightarrow> env" where
  "team_site t = site \<lparr> select :=
     (\<lambda>sel doc. if sel = ''.page-header a+ a'' then [t] else site_select sel doc) \<rparr>"

definition blank_team :: node where
  "blank_team = Tag ''a'' [(''href'', ''/team/9'')] [Text '' '']"

definition named_team :: node where
  "named_team = Tag ''a'' [(''href'', ''/team/9'')] [Text ''pwners'']"





text \<open>The same site when nothing can be fetched with \<^verbatim>\<open>requests.get\<close> any more.\<close>

definition no_get :: "string \<Rightarrow> int option \<Rightarrow> bool \<Rightarrow> exn + response" where
  "no_get u t v = Inl ConnectionError"

text \<open>
  The same site when write-up 1 links to a repository whose page names \<^verbatim>\<open>README.md\<close> as
  its readme.
\<close>

definition repo_site :: env where
  "repo_site = site \<lparr> select :=
     (\<lambda>sel doc. if sel = ''.well a''
                 then [Tag ''a'' [(''href'', ''https://github.com/u/repo/tree/main'')]
                         [Text ''writeup'']]
                 else site_select sel doc) \<rparr>"

text \<open>
  The same site when the description of write-up 1 holds a video with inline data and a
  fallback text.
\<close>

definition data_description :: "node list" where
  "data_description =
     [Text ''Demo: '',
      Tag ''video'' [(''src'', ''data:video/mp4;base64,AAAA'')] [Text ''no video support''],
      Text '' end'']"

definition data_page :: "node list" where
  "data_page =
     [Tag ''div'' [(''id'', ''user_rating'')] [Text '' 4.5 ''],
      Tag ''div'' [(''id'', ''id_description'')] data_description]"

definition data_site :: env where
  "data_site = site \<lparr> html_parser := (\<lambda>s. data_page) \<rparr>"


section \<open>Lemmas about the model\<close>

lemma not_in_response: "\<not> in_response (PyStr s) r"
  by (auto simp: in_response_def response_iter_def)

lemma get_content_length_head_ok:
  "requests_head e u = Inr r \<Longrightarrow> get_content_length e u = PyNone"
  by (simp add: get_content_length_def not_in_response)

lemma get_content_length_head_raises:
  "requests_head e u = Inl x \<Longrightarrow> get_content_length e u = PyInt 0"
  by (simp add: get_content_length_def)

lemma size_guard_simps:
  "size_guard PyNone = Inl TypeError" "size_guard (PyInt 0) = Inr True"
  by (simp_all add: size_guard_def py_eq_int_def py_gt_int_def)

lemma scrape_blog_writeup_head_ok:
  "requests_head e (split_first CHR ''#'' u) = Inr r \<Longrightarrow> scrape_blog_writeup e u = Inl TypeError"
  by (simp add: scrape_blog_writeup_def Let_def get_content_length_head_ok size_guard_simps
      try_bind_def)

lemma scrape_blog_writeup_head_raises:
  "requests_head e (split_first CHR ''#'' u) = Inl x \<Longrightarrow> scrape_blog_writeup e u = Inr []"
  by (simp add: scrape_blog_writeup_def Let_def get_content_length_head_raises size_guard_simps
      try_bind_def)

lemma crawl_keeps: "set collection \<subseteq> set (fst (crawl e ids collection))"
proof (induction ids arbitrary: collection)
  case Nil
  show ?case by simp
next
  case (Cons i rest)
  show ?case
  proof (cases "scrape_writeup_info e i")
    case (Inl x)
    then show ?thesis by simp
  next
    case (Inr res)
    obtain w code where res: "res = (w, code)" by (cases res)
    show ?thesis
    proof (cases "code = 200 \<or> code = 404")
      case False
      with Inr res Cons.IH [of collection] show ?thesis by simp
    next
      case True
      show ?thesis
      proof (cases w)
        case None
        with Inr res True show ?thesis by auto
      next
        case (Some r)
        have "set collection \<subseteq> set (collection @ [r])" by auto
        also have "\<dots> \<subseteq> set (fst (crawl e rest (collection @ [r])))" by (rule Cons.IH)
        finally show ?thesis using Inr res True Some by auto
      qed
    qed
  qed
qed

lemma missing_excludes: "i \<in> set ids \<Longrightarrow> i \<notin> set (missing L ids)"
  by (simp add: missing_def)

lemma scrape_writeup_info_404:
  assumes "requests_get e (ctftime_url e i) None True = Inr response"
    and "status_code response = 404"
  shows "scrape_writeup_info e i =
           Inr (Some \<lparr> writeup_id = i, ctf = [], name = [], tags = [], author = [], team = [],
                       rating = RatingStr [], ctftime = ctftime_url e i, url = [],
                       ctftime_content = [], blog_content = [] \<rparr>, 404)"
  using assms by (simp add: scrape_writeup_info_def try_bind_def)

lemma scrape_writeup_info_200:
  assumes "requests_get e (ctftime_url e i) None True = Inr response"
    and "status_code response = 200"
    and "parse_page e (html_parser e (content response)) = Inr p"
  shows "scrape_writeup_info e i =
           Inr (Some \<lparr> writeup_id = i, ctf = ctf_name p, name = challenge_name p,
                       tags = page_tags p, author = page_author p, team = page_team p,
                       rating = RatingFloat (page_rating p), ctftime = ctftime_url e i,
                       url = (if blog_url p \<noteq> [] then
                                (case scrape_blog_writeup e (blog_url p) of
                                   Inl x \<Rightarrow> [] | Inr c \<Rightarrow> blog_url p)
                              else blog_url p),
                       ctftime_content = description p,
                       blog_content = (if blog_url p \<noteq> [] then
                                (case scrape_blog_writeup e (blog_url p) of
                                   Inl x \<Rightarrow> [] | Inr c \<Rightarrow> c)
                              else []) \<rparr>, 200)"
  using assms by (simp add: scrape_writeup_info_def try_bind_def Let_def split: sum.splits)

lemma scrape_writeup_info_found:
  assumes "requests_get e (ctftime_url e i) None True = Inr response"
    and "scrape_writeup_info e i = Inr (Some w, 200)"
  shows "\<exists>p. parse_page e (html_parser e (content response)) = Inr p \<and>
             team w = page_team p \<and> author w = page_author p \<and>
             ctftime_content w = description p"
  using assms
  by (auto simp: scrape_writeup_info_def try_bind_def Let_def split: sum.splits if_splits)

lemma parse_page_team:
  assumes "parse_page e doc = Inr p"
  shows "\<exists>a. text_strip (select_one e ''h2+ a'' doc) = Inr a \<and>
             (page_team p, page_author p) =
               team_author (map_option (\<lambda>element. strip (get_text element))
                              (select_one e ''.page-header a+ a'' doc)) a"
  using assms
  by (auto simp: parse_page_def try_bind_def Let_def split: sum.splits if_splits)

lemma main_discovery_failure:
  assumes "requests_get e (CTFTIME_URL e) None True = Inr response"
    and "status_code response \<noteq> 200"
  shows "get_latest_writeup_id e = Inr None" and "main e collection = (collection, Some TypeError)"
  using assms by (simp_all add: main_def get_latest_writeup_id_def try_bind_def)

lemma concat_map_concat:
  "concat (map f (concat xss)) = concat (map (\<lambda>xs. concat (map f xs)) xss)"
  by (induction xss) simp_all

lemma scrape_blog_writeup_results:
  "scrape_blog_writeup e u = Inl TypeError \<or> scrape_blog_writeup e u = Inr []"
proof (cases "requests_head e (split_first CHR ''#'' u)")
  case (Inl x)
  then show ?thesis by (simp add: scrape_blog_writeup_head_raises)
next
  case (Inr r)
  then show ?thesis by (simp add: scrape_blog_writeup_head_ok)
qed

lemma scrape_blog_writeup_ignores_get:
  "scrape_blog_writeup (e \<lparr> requests_get := g \<rparr>) u = scrape_blog_writeup e u"
proof (cases "requests_head e (split_first CHR ''#'' u)")
  case (Inl x)
  then have "requests_head (e \<lparr> requests_get := g \<rparr>) (split_first CHR ''#'' u) = Inl x"
    by simp
  with Inl show ?thesis by (simp add: scrape_blog_writeup_head_raises)
next
  case (Inr r)
  then have "requests_head (e \<lparr> requests_get := g \<rparr>) (split_first CHR ''#'' u) = Inr r"
    by simp
  with Inr show ?thesis by (simp add: scrape_blog_writeup_head_ok)
qed

lemma parse_page_description:
  assumes "parse_page e doc = Inr p"
  shows "description p = ctftime_writeup_content doc"
  using assms
  by (auto simp: parse_page_def try_bind_def Let_def split: sum.splits if_splits)

lemma rewrite_children:
  assumes "\<And>c. c \<in> set cs \<Longrightarrow> concat (map f (map replace_br (replaceWithChildren c))) = v c"
  shows "concat (map f (map replace_br (concat (map replaceWithChildren cs)))) = concat (map v cs)"
  using assms by (induction cs) simp_all

lemma all_strings_rewrite:
  "concat (map (all_strings types) (map replace_br (replaceWithChildren n))) = visible types n"
proof (induction n)
  case (Str k s)
  show ?case by simp
next
  case (Tag n a cs)
  have kids: "concat (map (all_strings types) (map replace_br (concat (map replaceWithChildren cs))))
              = concat (map (visible types) cs)"
    by (rule rewrite_children) (rule Tag.IH)
  show ?case
  proof (cases "n = ''a''")
    case True
    then show ?thesis using kids by simp
  next
    case False
    then show ?thesis using kids by simp
  qed
qed

lemma findAll_rewrite:
  "concat (map findAll_node (map replace_br (replaceWithChildren n))) = map rewritten (surviving n)"
proof (induction n)
  case (Str k s)
  show ?case by simp
next
  case (Tag n a cs)
  have "concat (map findAll_node (map replace_br (concat (map replaceWithChildren cs))))
        = concat (map (\<lambda>c. map rewritten (surviving c)) cs)"
    by (rule rewrite_children) (rule Tag.IH)
  also have "\<dots> = map rewritten (concat (map surviving cs))"
    by (induction cs) simp_all
  finally have kids:
    "concat (map findAll_node (map replace_br (concat (map replaceWithChildren cs))))
     = map rewritten (concat (map surviving cs))" .
  show ?case
  proof (cases "n = ''a''")
    case True
    then show ?thesis using kids by simp
  next
    case False
    then show ?thesis using kids by simp
  qed
qed

lemma findAll_rewrite_page:
  "findAll (map replace_br (concat (map replaceWithChildren doc)))
   = map rewritten (concat (map surviving doc))"
proof -
  have "concat (map findAll_node (map replace_br (concat (map replaceWithChildren doc))))
        = concat (map (\<lambda>c. map rewritten (surviving c)) doc)"
    by (rule rewrite_children) (rule findAll_rewrite)
  also have "\<dots> = map rewritten (concat (map surviving doc))"
    by (induction doc) simp_all
  finally show ?thesis by (simp add: findAll_def)
qed

lemma find_map_same:
  assumes "\<And>x. P (r x) = P x"
  shows "List.find P (map r xs) = map_option r (List.find P xs)"
  using assms by (induction xs) simp_all

lemma find_in_set: "List.find P xs = Some x \<Longrightarrow> x \<in> set xs"
  by (induction xs) (auto split: if_splits)

lemma attrs_rewritten: "attrs (rewritten t) = attrs t"
  by (cases t) simp_all

lemma surviving_tags: "t \<in> set (surviving n) \<Longrightarrow> \<exists>m a cs. t = Tag m a cs"
  by (induction n) (auto split: if_splits)

lemma get_text_rewritten:
  "get_text (rewritten (Tag n a cs)) = concat (map (visible (interesting_string_types n)) cs)"
proof -
  have "concat (map (all_strings (interesting_string_types n))
                 (map replace_br (concat (map replaceWithChildren cs))))
        = concat (map (visible (interesting_string_types n)) cs)"
    by (rule rewrite_children) (rule all_strings_rewrite)
  then show ?thesis by simp
qed

lemma ctftime_writeup_content_one_pass:
  "ctftime_writeup_content doc =
     (case description_element doc of None \<Rightarrow> [] | Some el \<Rightarrow> description_text el)"
proof -
  let ?P = "\<lambda>t. map_of (attrs t) ''id'' = Some ''id_description''"
  have sel: "select_one_id ''id_description''
               (map replace_br (concat (map replaceWithChildren doc)))
             = map_option rewritten (description_element doc)"
    unfolding select_one_id_def description_element_def findAll_rewrite_page
    by (rule find_map_same) (simp add: attrs_rewritten)
  show ?thesis
  proof (cases "description_element doc")
    case None
    with sel show ?thesis by (simp add: ctftime_writeup_content_def)
  next
    case (Some el)
    then have "el \<in> set (concat (map surviving doc))"
      unfolding description_element_def by (rule find_in_set)
    then obtain x where "el \<in> set (surviving x)" by auto
    then have "\<exists>m a cs. el = Tag m a cs" by (rule surviving_tags)
    then obtain m a cs where el: "el = Tag m a cs" by blast
    have "get_text (rewritten el) = concat (map (visible (interesting_string_types m)) cs)"
      unfolding el by (rule get_text_rewritten)
    with sel Some el show ?thesis
      by (simp add: ctftime_writeup_content_def description_text_def)
  qed
qed

text \<open>
  Lines 106 to 130 on their own would turn the repository URL of the specification's
  example into a URL with two slashes before the branch: \<^verbatim>\<open>/blob\<close> is replaced by
  \<^verbatim>\<open>/\<close>. No run reaches these lines (\<open>scrape_blog_writeup_results\<close>).
\<close>

lemma github_url_two_slashes:
  "github_url site ''https://github.com/u/repo/tree/main''
     = Inr ''https://raw.githubusercontent.com/u/repo//main/README.md''"
  by code_simp

section \<open>Facts about the example sites\<close>

lemma str_int_1: "str_int 1 = ''1''"
  by code_simp

lemma str_int_2: "str_int 2 = ''2''"
  by code_simp

lemma site_detail: "requests_get site (ctftime_url site 1) None True = Inr site_response"
  by (simp add: ctftime_url_def site_def site_get_def str_int_1)

lemma site_status: "status_code site_response = 200"
  by (simp add: site_response_def)

lemma site_parse: "parse_page site (html_parser site (content site_response)) = Inr site_info"
  by code_simp

lemma site_blog_url: "blog_url site_info \<noteq> []"
  by (simp add: site_info_def)

lemma site_head:
  "requests_head site (split_first CHR ''#'' (blog_url site_info)) = Inr site_probe"
  by (simp add: site_def)

lemma site_advertised: "headers site_probe ''Content-Length'' = Some ''5000000''"
  by (simp add: site_probe_def)

lemma team_site_detail:
  "requests_get (team_site t) (ctftime_url (team_site t) 1) None True = Inr site_response"
  by (simp add: ctftime_url_def team_site_def site_def site_get_def str_int_1)

section \<open>The claims\<close>

text \<open>
  C1. For a latest identifier \<open>L\<close> and a collection of persisted records, the gap computed
  at the start of the run holds exactly the identifiers of \<open>{1..L}\<close> that no persisted
  record carries, and it lists them in strictly ascending order.
\<close>

theorem crawl_gap:
  "set (missing L (crawled collection)) = {1..L} - writeup_id ` set collection \<and>
   sorted_wrt (<) (missing L (crawled collection))"
  by (auto simp: missing_def crawled_def intro: sorted_wrt_filter)

text \<open>
  C2. When the detail page of identifier \<open>i\<close> answers 404, \<^verbatim>\<open>scrape_writeup_info\<close> returns
  the record whose fields are empty except the identifier and the reference URL, with
  code 404; the loop inserts that record and goes on; and \<open>i\<close> is in no gap computed from
  a later collection that still holds what this run left.
\<close>

theorem deleted_record_persisted:
  assumes "requests_get e (ctftime_url e i) None True = Inr response"
    and "status_code response = 404"
    and "set (fst (crawl e (i # rest) collection)) \<subseteq> set later"
  shows "(let w = \<lparr> writeup_id = i, ctf = [], name = [], tags = [], author = [], team = [],
                     rating = RatingStr [], ctftime = ctftime_url e i, url = [],
                     ctftime_content = [], blog_content = [] \<rparr>
          in scrape_writeup_info e i = Inr (Some w, 404) \<and>
             crawl e (i # rest) collection = crawl e rest (collection @ [w]) \<and>
             i \<notin> set (missing L (crawled later)))"
proof -
  define w where "w = \<lparr> writeup_id = i, ctf = [], name = [], tags = [], author = [], team = [],
                     rating = RatingStr [], ctftime = ctftime_url e i, url = [],
                     ctftime_content = [], blog_content = [] \<rparr>"
  have info: "scrape_writeup_info e i = Inr (Some w, 404)"
    unfolding w_def by (rule scrape_writeup_info_404 [OF assms(1,2)])
  then have step: "crawl e (i # rest) collection = crawl e rest (collection @ [w])"
    by simp
  have "w \<in> set (collection @ [w])" by simp
  also have "\<dots> \<subseteq> set (fst (crawl e rest (collection @ [w])))" by (rule crawl_keeps)
  finally have "w \<in> set later" using step assms(3) by auto
  then have "i \<in> set (crawled later)"
    by (auto simp: crawled_def w_def image_iff intro: bexI [where x = w])
  then have "i \<notin> set (missing L (crawled later))" by (rule missing_excludes)
  with info step show ?thesis unfolding w_def Let_def by simp
qed

text \<open>C2 on the example site: write-up 2 was deleted, and the next gap up to 5 skips it.\<close>

theorem deleted_record_persisted_witness:
  "requests_get site (ctftime_url site 2) None True
     = Inr \<lparr> status_code = 404, headers = Map.empty, content = [] \<rparr> \<and>
   fst (crawl site [2] []) = [\<lparr> writeup_id = 2, ctf = [], name = [], tags = [], author = [],
        team = [], rating = RatingStr [], ctftime = ''https://ctftime.org/writeup/2'',
        url = [], ctftime_content = [], blog_content = [] \<rparr>] \<and>
   scrape_writeup_info site 2 = Inr (Some \<lparr> writeup_id = 2, ctf = [], name = [], tags = [],
        author = [], team = [], rating = RatingStr [],
        ctftime = ''https://ctftime.org/writeup/2'', url = [], ctftime_content = [],
        blog_content = [] \<rparr>, 404) \<and>
   2 \<notin> set (missing 5 (crawled (fst (crawl site [2] []))))"
proof -
  have url: "ctftime_url site 2 = ''https://ctftime.org/writeup/2''"
    by (simp add: ctftime_url_def site_def str_int_2)
  have get: "requests_get site (ctftime_url site 2) None True
               = Inr \<lparr> status_code = 404, headers = Map.empty, content = [] \<rparr>"
    unfolding url by (simp add: site_def site_get_def)
  have st: "status_code \<lparr> status_code = 404, headers = Map.empty, content = [] \<rparr> = 404"
    by simp
  have sub: "set (fst (crawl site [2] [])) \<subseteq> set (fst (crawl site [2] []))" by simp
  show ?thesis
    using deleted_record_persisted [OF get st sub, of 5] get
    by (simp add: Let_def url missing_def crawled_def)
qed

text \<open>
  C3. When the detail page of \<open>i\<close> is parsed with a blog URL and \<^verbatim>\<open>scrape_blog_writeup\<close>
  raises any exception \<open>x\<close>, \<^verbatim>\<open>scrape_writeup_info\<close> still returns code 200 and the record
  that holds every field parsed from the page, with an empty blog URL and an empty blog
  content; the loop inserts that record, so that the collection left by the run holds it
  (with all it held before).
\<close>

theorem blog_failure_contained:
  assumes "requests_get e (ctftime_url e i) None True = Inr response"
    and "status_code response = 200"
    and "parse_page e (html_parser e (content response)) = Inr p"
    and "blog_url p \<noteq> []"
    and "scrape_blog_writeup e (blog_url p) = Inl x"
  shows "(let w = \<lparr> writeup_id = i, ctf = ctf_name p, name = challenge_name p,
                     tags = page_tags p, author = page_author p, team = page_team p,
                     rating = RatingFloat (page_rating p), ctftime = ctftime_url e i,
                     url = [], ctftime_content = description p, blog_content = [] \<rparr>
          in scrape_writeup_info e i = Inr (Some w, 200) \<and>
             crawl e (i # rest) collection = crawl e rest (collection @ [w]) \<and>
             w \<in> set (fst (crawl e (i # rest) collection)) \<and>
             set collection \<subseteq> set (fst (crawl e (i # rest) collection)))"
proof -
  define w where "w = \<lparr> writeup_id = i, ctf = ctf_name p, name = challenge_name p,
                     tags = page_tags p, author = page_author p, team = page_team p,
                     rating = RatingFloat (page_rating p), ctftime = ctftime_url e i,
                     url = [], ctftime_content = description p, blog_content = [] \<rparr>"
  have info: "scrape_writeup_info e i = Inr (Some w, 200)"
    using assms(4,5) by (simp add: scrape_writeup_info_200 [OF assms(1,2,3)] w_def)
  then have step: "crawl e (i # rest) collection = crawl e rest (collection @ [w])"
    by simp
  have "set (collection @ [w]) \<subseteq> set (fst (crawl e rest (collection @ [w])))"
    by (rule crawl_keeps)
  then have kept: "w \<in> set (fst (crawl e (i # rest) collection))"
    and old: "set collection \<subseteq> set (fst (crawl e (i # rest) collection))"
    unfolding step by auto
  from info step kept old show ?thesis unfolding w_def Let_def by (intro conjI)
qed

text \<open>
  C3 on the example site, where resolving the blog of write-up 1 raises: the record keeps
  the parsed fields and is the collection after the run.
\<close>

theorem blog_failure_contained_witness:
  "scrape_blog_writeup site (blog_url site_info) = Inl TypeError \<and>
   scrape_writeup_info site 1 =
     Inr (Some \<lparr> writeup_id = 1, ctf = ''Some CTF'', name = ''pwn me'', tags = ''pwn heap'',
                 author = [], team = ''bob'', rating = RatingFloat (9 / 2),
                 ctftime = ''https://ctftime.org/writeup/1'', url = [],
                 ctftime_content = ''See this link for details'', blog_content = [] \<rparr>, 200) \<and>
   \<lparr> writeup_id = 1, ctf = ''Some CTF'', name = ''pwn me'', tags = ''pwn heap'',
     author = [], team = ''bob'', rating = RatingFloat (9 / 2),
     ctftime = ''https://ctftime.org/writeup/1'', url = [],
     ctftime_content = ''See this link for details'', blog_content = [] \<rparr>
     \<in> set (fst (crawl site [1] []))"
proof -
  have blog: "scrape_blog_writeup site (blog_url site_info) = Inl TypeError"
    by (rule scrape_blog_writeup_head_ok [OF site_head])
  have url: "ctftime_url site 1 = ''https://ctftime.org/writeup/1''"
    by (simp add: ctftime_url_def site_def str_int_1)
  note inst = blog_failure_contained [OF site_detail site_status site_parse site_blog_url blog,
      of "[]" "[]", unfolded Let_def url]
  from inst have info: "scrape_writeup_info site 1 =
     Inr (Some \<lparr> writeup_id = 1, ctf = ''Some CTF'', name = ''pwn me'', tags = ''pwn heap'',
                 author = [], team = ''bob'', rating = RatingFloat (9 / 2),
                 ctftime = ''https://ctftime.org/writeup/1'', url = [],
                 ctftime_content = ''See this link for details'', blog_content = [] \<rparr>, 200)"
    by (simp add: site_info_def)
  from inst have kept: "\<lparr> writeup_id = 1, ctf = ''Some CTF'', name = ''pwn me'',
     tags = ''pwn heap'', author = [], team = ''bob'', rating = RatingFloat (9 / 2),
     ctftime = ''https://ctftime.org/writeup/1'', url = [],
     ctftime_content = ''See this link for details'', blog_content = [] \<rparr>
     \<in> set (fst (crawl site [1] []))"
    by (simp add: site_info_def)
  from blog info kept show ?thesis by (intro conjI)
qed

text \<open>
  C4 (the code differs). The claim: a probe that completes without an advertised size
  gives the unknown result and the body fetch proceeds. On the example site whose probe
  advertises no size, the result is \<^verbatim>\<open>None\<close>, but the comparison of \<^verbatim>\<open>None\<close> with the
  ceiling raises \<^verbatim>\<open>TypeError\<close>: \<^verbatim>\<open>scrape_blog_writeup\<close> never fetches the body, although
  the blog answers 200, and the record of write-up 1 loses its blog URL.
\<close>

theorem unknown_size_not_fetched:
  "get_content_length quiet_site ''https://blog.example/post'' = PyNone \<and>
   requests_get quiet_site ''https://blog.example/post'' (Some (TIMEOUT quiet_site)) False
     = Inr site_response \<and>
   scrape_blog_writeup quiet_site ''https://blog.example/post#top'' = Inl TypeError \<and>
   scrape_writeup_info quiet_site 1 =
     Inr (Some \<lparr> writeup_id = 1, ctf = ''Some CTF'', name = ''pwn me'', tags = ''pwn heap'',
                 author = [], team = ''bob'', rating = RatingFloat (9 / 2),
                 ctftime = ''https://ctftime.org/writeup/1'', url = [],
                 ctftime_content = ''See this link for details'', blog_content = [] \<rparr>, 200)"
proof -
  have a: "get_content_length quiet_site ''https://blog.example/post'' = PyNone"
    by (rule get_content_length_head_ok) (simp add: quiet_site_def)
  have b: "requests_get quiet_site ''https://blog.example/post'' (Some (TIMEOUT quiet_site)) False
             = Inr site_response"
    by (simp add: quiet_site_def site_def site_get_def)
  have c: "scrape_blog_writeup quiet_site ''https://blog.example/post#top'' = Inl TypeError"
    by (rule scrape_blog_writeup_head_ok) (simp add: quiet_site_def)
  have d: "scrape_writeup_info quiet_site 1 =
     Inr (Some \<lparr> writeup_id = 1, ctf = ''Some CTF'', name = ''pwn me'', tags = ''pwn heap'',
                 author = [], team = ''bob'', rating = RatingFloat (9 / 2),
                 ctftime = ''https://ctftime.org/writeup/1'', url = [],
                 ctftime_content = ''See this link for details'', blog_content = [] \<rparr>, 200)"
    by code_simp
  from a b c d show ?thesis by (intro conjI)
qed


text \<open>
  C6 (the code differs). The claim: when the landing page answers with a status other
  than 200, the run ends without error. On the example site that answers 503,
  \<^verbatim>\<open>get_latest_writeup_id\<close> returns \<^verbatim>\<open>None\<close> and the main block raises \<^verbatim>\<open>TypeError\<close> at
  \<^verbatim>\<open>latest_writeup_id + 1\<close>; nothing is inserted.
\<close>

theorem discovery_failure_raises:
  "get_latest_writeup_id down_site = Inr None \<and> main down_site [] = ([], Some TypeError)"
proof -
  have get: "requests_get down_site (CTFTIME_URL down_site) None True
               = Inr \<lparr> status_code = 503, headers = Map.empty, content = [] \<rparr>"
    by (simp add: down_site_def)
  have st: "status_code \<lparr> status_code = 503, headers = Map.empty, content = [] \<rparr> \<noteq> 200"
    by simp
  from main_discovery_failure [OF get st] show ?thesis by (intro conjI)
qed

text \<open>
  C7 (amended). The description of every record returned with code 200 is the stripped
  text of the description element of the page, read in one pass: the first tag with the
  \<^verbatim>\<open>id\<close> \<^verbatim>\<open>id_description\<close> that is no anchor, no \<^verbatim>\<open>br\<close> and not inside a \<^verbatim>\<open>br\<close>, or
  the empty string without one. Anchors give their content and every \<^verbatim>\<open>br\<close> a line
  feed; no tag is removed for its \<^verbatim>\<open>src\<close>.
\<close>

theorem description_extraction:
  assumes "requests_get e (ctftime_url e i) None True = Inr response"
    and "scrape_writeup_info e i = Inr (Some w, 200)"
  shows "ctftime_content w =
           (case description_element (html_parser e (content response)) of
              None \<Rightarrow> []
            | Some el \<Rightarrow> description_text el)"
proof -
  obtain p where p: "parse_page e (html_parser e (content response)) = Inr p"
    and w: "ctftime_content w = description p"
    using scrape_writeup_info_found [OF assms] by blast
  show ?thesis
    unfolding w parse_page_description [OF p] by (rule ctftime_writeup_content_one_pass)
qed

text \<open>C7 on the example site, whose description holds an anchor: its label is kept.\<close>

theorem description_extraction_witness:
  "scrape_writeup_info site 1 =
     Inr (Some \<lparr> writeup_id = 1, ctf = ''Some CTF'', name = ''pwn me'', tags = ''pwn heap'',
                 author = [], team = ''bob'', rating = RatingFloat (9 / 2),
                 ctftime = ''https://ctftime.org/writeup/1'', url = [],
                 ctftime_content = ''See this link for details'', blog_content = [] \<rparr>, 200) \<and>
   description_element (html_parser site (content site_response))
     = Some (Tag ''div'' [(''id'', ''id_description'')]
               [Tag ''p'' [] [Text ''See '', Tag ''a'' [(''href'', ''x'')] [Text ''this link''],
                              Text '' for details'']]) \<and>
   description_text (Tag ''div'' [(''id'', ''id_description'')]
               [Tag ''p'' [] [Text ''See '', Tag ''a'' [(''href'', ''x'')] [Text ''this link''],
                              Text '' for details'']]) = ''See this link for details''"
proof -
  have info: "scrape_writeup_info site 1 =
     Inr (Some \<lparr> writeup_id = 1, ctf = ''Some CTF'', name = ''pwn me'', tags = ''pwn heap'',
                 author = [], team = ''bob'', rating = RatingFloat (9 / 2),
                 ctftime = ''https://ctftime.org/writeup/1'', url = [],
                 ctftime_content = ''See this link for details'', blog_content = [] \<rparr>, 200)"
    by code_simp
  have el: "description_element (html_parser site (content site_response))
     = Some (Tag ''div'' [(''id'', ''id_description'')]
               [Tag ''p'' [] [Text ''See '', Tag ''a'' [(''href'', ''x'')] [Text ''this link''],
                              Text '' for details'']])"
    by code_simp
  from description_extraction [OF site_detail info]
  have "description_text (Tag ''div'' [(''id'', ''id_description'')]
               [Tag ''p'' [] [Text ''See '', Tag ''a'' [(''href'', ''x'')] [Text ''this link''],
                              Text '' for details'']]) = ''See this link for details''"
    unfolding el by simp
  with info el show ?thesis by (intro conjI)
qed

text \<open>
  C7, the claim as stated fails: the description does not undergo the removal of the
  elements with inline data. On the example site whose description holds a video with a
  \<^verbatim>\<open>data:\<close> source, the record keeps the text inside the video, which the extraction
  of the specification removes.
\<close>

theorem inline_data_kept_counterexample:
  "inline_data_src (Tag ''video'' [(''src'', ''data:video/mp4;base64,AAAA'')]
                      [Text ''no video support'']) \<and>
   scrape_writeup_info data_site 1 =
     Inr (Some \<lparr> writeup_id = 1, ctf = ''Some CTF'', name = ''pwn me'', tags = ''pwn heap'',
                 author = [], team = ''bob'', rating = RatingFloat (9 / 2),
                 ctftime = ''https://ctftime.org/writeup/1'', url = [],
                 ctftime_content = ''Demo: no video support end'', blog_content = [] \<rparr>, 200) \<and>
   description_element data_page = Some (Tag ''div'' [(''id'', ''id_description'')] data_description) \<and>
   spec_extractText data_description = ''Demo:  end'' \<and>
   ''Demo: no video support end'' \<noteq> spec_extractText data_description"
proof -
  have a: "inline_data_src (Tag ''video'' [(''src'', ''data:video/mp4;base64,AAAA'')]
                      [Text ''no video support''])"
    by code_simp
  have b: "scrape_writeup_info data_site 1 =
     Inr (Some \<lparr> writeup_id = 1, ctf = ''Some CTF'', name = ''pwn me'', tags = ''pwn heap'',
                 author = [], team = ''bob'', rating = RatingFloat (9 / 2),
                 ctftime = ''https://ctftime.org/writeup/1'', url = [],
                 ctftime_content = ''Demo: no video support end'', blog_content = [] \<rparr>, 200)"
    by code_simp
  have c: "description_element data_page
             = Some (Tag ''div'' [(''id'', ''id_description'')] data_description)"
    by code_simp
  have d: "spec_extractText data_description = ''Demo:  end''"
    by code_simp
  have e: "''Demo: no video support end'' \<noteq> spec_extractText data_description"
    unfolding d by simp
  from a b c d e show ?thesis by (intro conjI)
qed

text \<open>
  C8 (the code differs). The claim: the repository URL
  \<^verbatim>\<open>https://github.com/u/repo/tree/main\<close> with the readme \<^verbatim>\<open>README.md\<close> is normalized to
  \<^verbatim>\<open>https://raw.githubusercontent.com/u/repo/main/README.md\<close>. On the example site whose
  write-up 1 links to that repository, \<^verbatim>\<open>scrape_blog_writeup\<close> raises \<^verbatim>\<open>TypeError\<close> at the
  size guard, before the lines that normalize: the result is the same when nothing can be
  fetched, so the repository page is never asked for; when the probe raises, the guard
  returns the empty string. The record of write-up 1 has no blog URL and no blog content.
\<close>

theorem repo_url_never_normalized:
  "filename repo_site (html_parser repo_site (content site_response)) = Some ''README.md'' \<and>
   scrape_blog_writeup repo_site ''https://github.com/u/repo/tree/main'' = Inl TypeError \<and>
   scrape_blog_writeup (repo_site \<lparr> requests_get := no_get \<rparr>)
       ''https://github.com/u/repo/tree/main'' = Inl TypeError \<and>
   scrape_blog_writeup (repo_site \<lparr> requests_head := (\<lambda>u. Inl ConnectionError) \<rparr>)
       ''https://github.com/u/repo/tree/main'' = Inr [] \<and>
   scrape_writeup_info repo_site 1 =
     Inr (Some \<lparr> writeup_id = 1, ctf = ''Some CTF'', name = ''pwn me'', tags = ''pwn heap'',
                 author = [], team = ''bob'', rating = RatingFloat (9 / 2),
                 ctftime = ''https://ctftime.org/writeup/1'', url = [],
                 ctftime_content = ''See this link for details'', blog_content = [] \<rparr>, 200)"
proof -
  have a: "filename repo_site (html_parser repo_site (content site_response)) = Some ''README.md''"
    by code_simp
  have b: "scrape_blog_writeup repo_site ''https://github.com/u/repo/tree/main'' = Inl TypeError"
    by (rule scrape_blog_writeup_head_ok [where r = site_probe])
       (simp add: repo_site_def site_def)
  have c: "scrape_blog_writeup (repo_site \<lparr> requests_get := no_get \<rparr>)
             ''https://github.com/u/repo/tree/main'' = Inl TypeError"
    unfolding scrape_blog_writeup_ignores_get by (rule b)
  have d: "scrape_blog_writeup (repo_site \<lparr> requests_head := (\<lambda>u. Inl ConnectionError) \<rparr>)
             ''https://github.com/u/repo/tree/main'' = Inr []"
    by (rule scrape_blog_writeup_head_raises [where x = ConnectionError]) simp
  have e: "scrape_writeup_info repo_site 1 =
     Inr (Some \<lparr> writeup_id = 1, ctf = ''Some CTF'', name = ''pwn me'', tags = ''pwn heap'',
                 author = [], team = ''bob'', rating = RatingFloat (9 / 2),
                 ctftime = ''https://ctftime.org/writeup/1'', url = [],
                 ctftime_content = ''See this link for details'', blog_content = [] \<rparr>, 200)"
    by code_simp
  from a b c d e show ?thesis by (intro conjI)
qed

text \<open>
  C9 (amended). For a detail page that yields a record with code 200 and whose author
  element reads \<open>a\<close>: without a team element, the team field is \<open>a\<close> and the author field
  is empty; with a team element whose stripped text is not empty, the team field is that
  text and the author field is \<open>a\<close>; with a team element whose stripped text is empty, the
  fields are as without a team element.
\<close>

theorem team_author_fields:
  assumes "requests_get e (ctftime_url e i) None True = Inr response"
    and "scrape_writeup_info e i = Inr (Some w, 200)"
  shows "\<exists>a. text_strip (select_one e ''h2+ a'' (html_parser e (content response))) = Inr a \<and>
           (case select_one e ''.page-header a+ a'' (html_parser e (content response)) of
              None \<Rightarrow> team w = a \<and> author w = []
            | Some element \<Rightarrow>
                if strip (get_text element) = [] then team w = a \<and> author w = []
                else team w = strip (get_text element) \<and> author w = a)"
proof -
  obtain p where p: "parse_page e (html_parser e (content response)) = Inr p"
    and w: "team w = page_team p" "author w = page_author p"
    using scrape_writeup_info_found [OF assms] by blast
  obtain a where a: "text_strip (select_one e ''h2+ a'' (html_parser e (content response))) = Inr a"
    and ta: "(page_team p, page_author p) =
               team_author (map_option (\<lambda>element. strip (get_text element))
                 (select_one e ''.page-header a+ a'' (html_parser e (content response)))) a"
    using parse_page_team [OF p] by blast
  show ?thesis
    using a ta w by (auto simp: team_author_def split: option.splits if_splits)
qed

text \<open>
  C9 on the example site, without a team element (the author \<^verbatim>\<open>bob\<close> becomes the team)
  and with the team element \<^verbatim>\<open>pwners\<close>.
\<close>

theorem team_author_fields_witness:
  "select_one site ''.page-header a+ a'' (html_parser site (content site_response)) = None \<and>
   text_strip (select_one site ''h2+ a'' (html_parser site (content site_response)))
     = Inr ''bob'' \<and>
   scrape_writeup_info site 1 =
     Inr (Some \<lparr> writeup_id = 1, ctf = ''Some CTF'', name = ''pwn me'', tags = ''pwn heap'',
                 author = [], team = ''bob'', rating = RatingFloat (9 / 2),
                 ctftime = ''https://ctftime.org/writeup/1'', url = [],
                 ctftime_content = ''See this link for details'', blog_content = [] \<rparr>, 200) \<and>
   select_one (team_site named_team) ''.page-header a+ a''
       (html_parser (team_site named_team) (content site_response)) = Some named_team \<and>
   scrape_writeup_info (team_site named_team) 1 =
     Inr (Some \<lparr> writeup_id = 1, ctf = ''Some CTF'', name = ''pwn me'', tags = ''pwn heap'',
                 author = ''bob'', team = ''pwners'', rating = RatingFloat (9 / 2),
                 ctftime = ''https://ctftime.org/writeup/1'', url = [],
                 ctftime_content = ''See this link for details'', blog_content = [] \<rparr>, 200)"
proof -
  have info: "scrape_writeup_info site 1 =
     Inr (Some \<lparr> writeup_id = 1, ctf = ''Some CTF'', name = ''pwn me'', tags = ''pwn heap'',
                 author = [], team = ''bob'', rating = RatingFloat (9 / 2),
                 ctftime = ''https://ctftime.org/writeup/1'', url = [],
                 ctftime_content = ''See this link for details'', blog_content = [] \<rparr>, 200)"
    by code_simp
  have none: "select_one site ''.page-header a+ a'' (html_parser site (content site_response))
                = None"
    by code_simp
  have auth: "text_strip (select_one site ''h2+ a'' (html_parser site (content site_response)))
                = Inr ''bob''"
    by code_simp
  have info2: "scrape_writeup_info (team_site named_team) 1 =
     Inr (Some \<lparr> writeup_id = 1, ctf = ''Some CTF'', name = ''pwn me'', tags = ''pwn heap'',
                 author = ''bob'', team = ''pwners'', rating = RatingFloat (9 / 2),
                 ctftime = ''https://ctftime.org/writeup/1'', url = [],
                 ctftime_content = ''See this link for details'', blog_content = [] \<rparr>, 200)"
    by code_simp
  have some: "select_one (team_site named_team) ''.page-header a+ a''
       (html_parser (team_site named_team) (content site_response)) = Some named_team"
    by code_simp
  show ?thesis
    using team_author_fields [OF site_detail info] team_author_fields [OF team_site_detail info2]
      info none auth info2 some
    by simp
qed

text \<open>
  C9, the claim as stated fails: with a team element whose text is blank, the team field
  holds the author \<^verbatim>\<open>bob\<close>, not the (empty) team name, and the author field is empty.
\<close>

theorem blank_team_counterexample:
  "select_one (team_site blank_team) ''.page-header a+ a''
       (html_parser (team_site blank_team) (content site_response)) = Some blank_team \<and>
   strip (get_text blank_team) = [] \<and>
   scrape_writeup_info (team_site blank_team) 1 =
     Inr (Some \<lparr> writeup_id = 1, ctf = ''Some CTF'', name = ''pwn me'', tags = ''pwn heap'',
                 author = [], team = ''bob'', rating = RatingFloat (9 / 2),
                 ctftime = ''https://ctftime.org/writeup/1'', url = [],
                 ctftime_content = ''See this link for details'', blog_content = [] \<rparr>, 200) \<and>
   ''bob'' \<noteq> strip (get_text blank_team)"
proof -
  have a: "select_one (team_site blank_team) ''.page-header a+ a''
       (html_parser (team_site blank_team) (content site_response)) = Some blank_team"
    by code_simp
  have b: "strip (get_text blank_team) = []" by code_simp
  have c: "scrape_writeup_info (team_site blank_team) 1 =
     Inr (Some \<lparr> writeup_id = 1, ctf = ''Some CTF'', name = ''pwn me'', tags = ''pwn heap'',
                 author = [], team = ''bob'', rating = RatingFloat (9 / 2),
                 ctftime = ''https://ctftime.org/writeup/1'', url = [],
                 ctftime_content = ''See this link for details'', blog_content = [] \<rparr>, 200)"
    by code_simp
  from a b c show ?thesis by simp
qed

text \<open>
  C10. Whenever the header request returns a response, \<^verbatim>\<open>get_content_length\<close> returns
  \<^verbatim>\<open>None\<close>, whatever the headers say: the membership test looks through the body slices,
  which are \<^verbatim>\<open>bytes\<close>. So the function returns \<^verbatim>\<open>None\<close> or 0 only, never a positive size
  or a header value, and the comparison with the ceiling is never true.
\<close>

theorem get_content_length_values:
  "(\<forall>r. requests_head e u = Inr r \<longrightarrow> get_content_length e u = PyNone) \<and>
   (get_content_length e u = PyNone \<or> get_content_length e u = PyInt 0) \<and>
   (\<forall>n. 0 < n \<longrightarrow> get_content_length e u \<noteq> PyInt n) \<and>
   (\<forall>v. get_content_length e u \<noteq> PyStr v) \<and>
   py_gt_int (get_content_length e u) (2 ^ 21) \<noteq> Inr True"
proof (cases "requests_head e u")
  case (Inl x)
  then show ?thesis
    by (simp add: get_content_length_head_raises py_gt_int_def)
next
  case (Inr r)
  then show ?thesis
    by (simp add: get_content_length_head_ok py_gt_int_def)
qed

text \<open>C10 on the example site, whose probe advertises 5000000 bytes.\<close>

theorem get_content_length_values_witness:
  "requests_head site ''https://blog.example/post'' = Inr site_probe \<and>
   headers site_probe ''Content-Length'' = Some ''5000000'' \<and>
   get_content_length site ''https://blog.example/post'' = PyNone"
proof -
  have head: "requests_head site ''https://blog.example/post'' = Inr site_probe"
    by (simp add: site_def)
  show ?thesis
    using get_content_length_values [of site "''https://blog.example/post''"] head
      site_advertised
    by simp
qed

end
